theory Spec2Isabelle
  imports Main
begin

section \<open>Data model of \<^verbatim>\<open>pb_utils.py\<close>\<close>

text \<open>
  The module talks to three outside libraries: the Cohere client \<^verbatim>\<open>co\<close> (query planning,
  reranking, streaming chat), the FAISS index built by langchain, and the PDF loader. Their
  code is not part of the repository, so each of their methods is a field of a record and
  every function of the module takes them through \<^verbatim>\<open>self\<close>, as the Python does. A call that
  raises returns \<open>Inl\<close>; the exceptions the module's own expressions can raise
  (\<^verbatim>\<open>IndexError\<close> of a list subscript, \<^verbatim>\<open>KeyError\<close> of a dict subscript) are values of
  the same type.
\<close>

datatype error = ServiceError string | IndexError | KeyError string

text \<open>A langchain \<^verbatim>\<open>Document\<close>: the code reads \<^verbatim>\<open>page_content\<close> and \<^verbatim>\<open>metadata\<close>;
  the metadata is opaque to it.\<close>

record 'm document =
  page_content :: string
  metadata :: 'm

text \<open>The dicts \<^verbatim>\<open>retrieve\<close> builds hold a string under \<^verbatim>\<open>"text"\<close> and the metadata
  object under \<^verbatim>\<open>"metadata"\<close>; a dict is the list of its items in insertion order.\<close>

datatype 'm pyval = Str string | Meta 'm

type_synonym 'm pydict = "(string \<times> 'm pyval) list"

text \<open>What the code reads of the Cohere responses: \<^verbatim>\<open>result.index\<close> of a rerank result,
  \<^verbatim>\<open>query.text\<close> of a search query, \<^verbatim>\<open>response.search_queries\<close> of the planning response,
  and of a streamed event \<^verbatim>\<open>event_type\<close>, \<^verbatim>\<open>text\<close>, \<^verbatim>\<open>citations\<close> and \<^verbatim>\<open>documents\<close>.
  A cited document is a dict of strings (the code formats \<^verbatim>\<open>document['id']\<close>); a citation
  is an object the code passes on untouched.\<close>

record rerank_result =
  index :: int

record search_query =
  query_text :: string

record chat_response =
  search_queries :: "search_query list"

type_synonym cited_document = "(string \<times> string) list"

record 'c event =
  event_type :: string
  event_text :: string
  event_citations :: "'c list"
  event_documents :: "cited_document list"

text \<open>\<^verbatim>\<open>stream_responses\<close> holds strings and, after \<^verbatim>\<open>stream_responses.append(citation)\<close>,
  citation objects.\<close>

datatype 'c out_item = Text string | Cite 'c

text \<open>Every call on an outside service is recorded with its arguments, in call order; an
  argument left out of a Python call (\<^verbatim>\<open>documents\<close> of \<^verbatim>\<open>chat_stream\<close>) is \<open>None\<close>.\<close>

datatype 'm call =
    Chat_call string bool
  | Similarity_search_call string int
  | Rerank_call string "string list" int string
  | Chat_stream_call string string "'m pydict list option" string

record ('m, 'c) client =
  chat :: "string \<Rightarrow> bool \<Rightarrow> error + chat_response"
  rerank :: "string \<Rightarrow> string list \<Rightarrow> int \<Rightarrow> string \<Rightarrow> error + rerank_result list"
  chat_stream :: "string \<Rightarrow> string \<Rightarrow> 'm pydict list option \<Rightarrow> string \<Rightarrow> error + 'c event list"

text \<open>A FAISS index is its \<^verbatim>\<open>similarity_search(query, k)\<close> method.\<close>

type_synonym 'm faiss = "string \<Rightarrow> int \<Rightarrow> error + 'm document list"

record 'm langchain =
  load_and_split :: "string \<Rightarrow> error + 'm document list"
  from_documents :: "'m document list \<Rightarrow> error + 'm faiss"

record ('m, 'c) Vectorstore =
  co :: "('m, 'c) client"
  docs :: "'m document list"
  retrieve_top_k :: int
  rerank_top_k :: int
  vs :: "'m faiss"

text \<open>The client field of \<^verbatim>\<open>PaperBot\<close> is \<^verbatim>\<open>co\<close> in the source too; it is \<open>bot_co\<close> here,
  since one field name cannot belong to two records.\<close>

record ('m, 'c) PaperBot =
  bot_co :: "('m, 'c) client"
  vectorstore :: "('m, 'c) Vectorstore"
  conversation_id :: string

section \<open>Python primitives\<close>

text \<open>\<^verbatim>\<open>xs[i]\<close> on a list: a negative index counts from the end, an index out of range
  raises \<^verbatim>\<open>IndexError\<close>.\<close>

definition getitem :: "'a list \<Rightarrow> int \<Rightarrow> error + 'a" where
  "getitem xs i =
     (if 0 \<le> i \<and> i < int (length xs) then Inr (xs ! nat i)
      else if i < 0 \<and> - int (length xs) \<le> i then Inr (xs ! nat (int (length xs) + i))
      else Inl IndexError)"

text \<open>\<^verbatim>\<open>d[k]\<close> on a dict: a missing key raises \<^verbatim>\<open>KeyError\<close>.\<close>

definition dict_get :: "(string \<times> 'v) list \<Rightarrow> string \<Rightarrow> error + 'v" where
  "dict_get d k = (case map_of d k of None \<Rightarrow> Inl (KeyError k) | Some v \<Rightarrow> Inr v)"

section \<open>Vectorstore\<close>

text \<open>\<^verbatim>\<open>load_docs\<close> downloads the PDF and splits it into pages; \<^verbatim>\<open>embed\<close> builds the index
  from \<^verbatim>\<open>self.docs\<close>. \<^verbatim>\<open>__init__\<close> runs both and sets the two constants.\<close>

definition load_docs :: "'m langchain \<Rightarrow> string \<Rightarrow> error + 'm document list" where
  "load_docs lc paper_url = load_and_split lc paper_url"

definition embed :: "'m langchain \<Rightarrow> 'm document list \<Rightarrow> error + 'm faiss" where
  "embed lc ds = from_documents lc ds"

definition Vectorstore_init ::
  "'m langchain \<Rightarrow> ('m, 'c) client \<Rightarrow> string \<Rightarrow> error + ('m, 'c) Vectorstore" where
  "Vectorstore_init lc c paper_url =
     (case load_docs lc paper_url of
        Inl e \<Rightarrow> Inl e
      | Inr ds \<Rightarrow>
          (case embed lc ds of
             Inl e \<Rightarrow> Inl e
           | Inr ix \<Rightarrow>
               Inr \<lparr>co = c, docs = ds, retrieve_top_k = 10, rerank_top_k = 3, vs = ix\<rparr>))"

text \<open>The list comprehension of \<^verbatim>\<open>retrieve\<close>: for each rerank result, in order, a dict of the
  page content and the metadata of \<^verbatim>\<open>retrieved_docs[result.index]\<close> (two subscripts, as in
  the source).\<close>

fun reranked_docs :: "'m document list \<Rightarrow> rerank_result list \<Rightarrow> error + 'm pydict list" where
  "reranked_docs retrieved_docs [] = Inr []"
| "reranked_docs retrieved_docs (result # results) =
     (case getitem retrieved_docs (index result) of
        Inl e \<Rightarrow> Inl e
      | Inr d1 \<Rightarrow>
          (case getitem retrieved_docs (index result) of
             Inl e \<Rightarrow> Inl e
           | Inr d2 \<Rightarrow>
               (case reranked_docs retrieved_docs results of
                  Inl e \<Rightarrow> Inl e
                | Inr rest \<Rightarrow>
                    Inr ([(''text'', Str (page_content d1)), (''metadata'', Meta (metadata d2))]
                         # rest))))"

definition retrieve ::
  "('m, 'c) Vectorstore \<Rightarrow> string \<Rightarrow> 'm call list \<times> (error + 'm pydict list)" where
  "retrieve self query =
     (case vs self query (retrieve_top_k self) of
        Inl e \<Rightarrow> ([Similarity_search_call query (retrieve_top_k self)], Inl e)
      | Inr retrieved_docs \<Rightarrow>
          (let rd_page_content = map page_content retrieved_docs in
           case rerank (co self) query rd_page_content (rerank_top_k self) ''rerank-english-v2.0'' of
             Inl e \<Rightarrow>
               ([Similarity_search_call query (retrieve_top_k self),
                 Rerank_call query rd_page_content (rerank_top_k self) ''rerank-english-v2.0''],
                Inl e)
           | Inr rerank_results \<Rightarrow>
               ([Similarity_search_call query (retrieve_top_k self),
                 Rerank_call query rd_page_content (rerank_top_k self) ''rerank-english-v2.0''],
                reranked_docs retrieved_docs rerank_results)))"

section \<open>PaperBot\<close>

text \<open>\<^verbatim>\<open>__init__\<close> draws the conversation id once (\<^verbatim>\<open>str(uuid.uuid4())\<close>); the drawn value is
  the argument \<open>uuid4\<close>.\<close>

definition PaperBot_init ::
  "('m, 'c) client \<Rightarrow> ('m, 'c) Vectorstore \<Rightarrow> string \<Rightarrow> ('m, 'c) PaperBot" where
  "PaperBot_init c vstore uuid4 = \<lparr>bot_co = c, vectorstore = vstore, conversation_id = uuid4\<rparr>"

text \<open>The loop over \<^verbatim>\<open>response.search_queries\<close>: \<^verbatim>\<open>documents.extend(retrieve(query.text))\<close>;
  the first exception ends it.\<close>

fun retrieve_queries ::
  "('m, 'c) Vectorstore \<Rightarrow> search_query list \<Rightarrow> 'm pydict list
     \<Rightarrow> 'm call list \<times> (error + 'm pydict list)" where
  "retrieve_queries vstore [] documents = ([], Inr documents)"
| "retrieve_queries vstore (query # queries) documents =
     (case retrieve vstore (query_text query) of
        (tr, Inl e) \<Rightarrow> (tr, Inl e)
      | (tr, Inr found) \<Rightarrow>
          (case retrieve_queries vstore queries (documents @ found) of
             (tr', r) \<Rightarrow> (tr @ tr', r)))"

text \<open>\<^verbatim>\<open>[{"text": doc["text"]} for doc in documents]\<close>\<close>

fun document_contents :: "'m pydict list \<Rightarrow> error + 'm pydict list" where
  "document_contents [] = Inr []"
| "document_contents (doc # documents) =
     (case dict_get doc ''text'' of
        Inl e \<Rightarrow> Inl e
      | Inr v \<Rightarrow>
          (case document_contents documents of
             Inl e \<Rightarrow> Inl e
           | Inr rest \<Rightarrow> Inr ([(''text'', v)] # rest)))"

text \<open>The loop over the streamed events, on the three buffers \<^verbatim>\<open>stream_responses\<close>,
  \<^verbatim>\<open>citations\<close> and \<^verbatim>\<open>cited_documents\<close>.\<close>

fun consume_events ::
  "'c event list \<Rightarrow> 'c out_item list \<Rightarrow> 'c list \<Rightarrow> cited_document list
     \<Rightarrow> 'c out_item list \<times> 'c list \<times> cited_document list" where
  "consume_events [] stream_responses cits cited_documents =
     (stream_responses, cits, cited_documents)"
| "consume_events (event # events) stream_responses cits cited_documents =
     (if event_type event = ''text-generation'' then
        consume_events events (stream_responses @ [Text (event_text event)]) cits cited_documents
      else if event_type event = ''citation-generation'' then
        consume_events events stream_responses (cits @ event_citations event) cited_documents
      else if event_type event = ''search-results'' then
        consume_events events stream_responses cits (event_documents event)
      else consume_events events stream_responses cits cited_documents)"

text \<open>\<^verbatim>\<open>f"{document['id']}, "\<close> for each cited document.\<close>

fun document_ids :: "cited_document list \<Rightarrow> error + 'c out_item list" where
  "document_ids [] = Inr []"
| "document_ids (document # cited_documents) =
     (case dict_get document ''id'' of
        Inl e \<Rightarrow> Inl e
      | Inr i \<Rightarrow>
          (case document_ids cited_documents of
             Inl e \<Rightarrow> Inl e
           | Inr rest \<Rightarrow> Inr (Text (i @ '', '') # rest)))"

text \<open>The block after the event loop. The generator yields only after it, so an exception
  here leaves nothing yielded.\<close>

definition citation_block ::
  "'c out_item list \<Rightarrow> 'c list \<Rightarrow> cited_document list \<Rightarrow> error + 'c out_item list" where
  "citation_block stream_responses cits cited_documents =
     (if cits \<noteq> [] then
        (case document_ids cited_documents of
           Inl e \<Rightarrow> Inl e
         | Inr ids \<Rightarrow>
             Inr (stream_responses @ [Text ''\<newline>\<newline>CITATIONS:''] @ map Cite cits
                  @ [Text ''\<newline>DOCUMENTS:''] @ ids))
      else Inr stream_responses)"

text \<open>Lines 139 to 163: what the generator yields from the response of \<^verbatim>\<open>chat_stream\<close>.\<close>

definition build_output :: "error + 'c event list \<Rightarrow> error + 'c out_item list" where
  "build_output response =
     (case response of
        Inl e \<Rightarrow> Inl e
      | Inr events \<Rightarrow>
          (case consume_events events [] [] [] of
             (stream_responses, cits, cited_documents) \<Rightarrow>
               citation_block stream_responses cits cited_documents))"

definition chat_completion ::
  "('m, 'c) PaperBot \<Rightarrow> string \<Rightarrow> 'm call list \<times> (error + 'c out_item list)" where
  "chat_completion self message =
     (case chat (bot_co self) message True of
        Inl e \<Rightarrow> ([Chat_call message True], Inl e)
      | Inr response \<Rightarrow>
          (if search_queries response \<noteq> [] then
             (case retrieve_queries (vectorstore self) (search_queries response) [] of
                (tr, Inl e) \<Rightarrow> (Chat_call message True # tr, Inl e)
              | (tr, Inr documents) \<Rightarrow>
                  (case document_contents documents of
                     Inl e \<Rightarrow> (Chat_call message True # tr, Inl e)
                   | Inr contents \<Rightarrow>
                       (Chat_call message True # tr
                          @ [Chat_stream_call message ''command-r'' (Some contents)
                               (conversation_id self)],
                        build_output
                          (chat_stream (bot_co self) message ''command-r'' (Some contents)
                             (conversation_id self)))))
           else
             ([Chat_call message True,
               Chat_stream_call message ''command-r'' None (conversation_id self)],
              build_output
                (chat_stream (bot_co self) message ''command-r'' None (conversation_id self)))))"

section \<open>Vocabulary of the properties\<close>

text \<open>The reranker is an outside service. Its contract: a successful call returns at most
  \<^verbatim>\<open>top_n\<close> results.\<close>

definition rerank_within_top_n :: "('m, 'c) client \<Rightarrow> bool" where
  "rerank_within_top_n c \<longleftrightarrow>
     (\<forall>query ds top_n model results.
        rerank c query ds top_n model = Inr results \<longrightarrow> length results \<le> nat top_n)"

text \<open>The passage dict built from one candidate document.\<close>

definition passage_of :: "'m document \<Rightarrow> 'm pydict" where
  "passage_of d = [(''text'', Str (page_content d)), (''metadata'', Meta (metadata d))]"

text \<open>What a stream of events contributes to the three buffers: the texts of the
  text-generation events, the citations of the citation-generation events, and the documents
  of the last search-results event.\<close>

definition text_chunks :: "'c event list \<Rightarrow> string list" where
  "text_chunks events =
     map event_text (filter (\<lambda>e. event_type e = ''text-generation'') events)"

definition all_citations :: "'c event list \<Rightarrow> 'c list" where
  "all_citations events =
     concat (map event_citations (filter (\<lambda>e. event_type e = ''citation-generation'') events))"

definition last_documents :: "'c event list \<Rightarrow> cited_document list" where
  "last_documents events =
     foldl (\<lambda>acc e. if event_type e = ''search-results'' then event_documents e else acc)
       [] events"

text \<open>What \<^verbatim>\<open>chat_completion\<close> keeps of a passage for the generation call: a dict with the
  one key \<^verbatim>\<open>"text"\<close>.\<close>

definition text_only :: "'m document \<Rightarrow> 'm pydict" where
  "text_only d = [(''text'', Str (page_content d))]"

text \<open>The trailing block as the specification words it (P5): the header
  \<^verbatim>\<open>"\n\nCITATIONS:"\<close>, each citation, the header \<^verbatim>\<open>"\nDOCUMENTS:"\<close>, then each document id
  formatted as \<^verbatim>\<open>"<id>, "\<close>.\<close>

definition citations_block :: "'c list \<Rightarrow> string list \<Rightarrow> 'c out_item list" where
  "citations_block cits ids =
     [Text ''\<newline>\<newline>CITATIONS:''] @ map Cite cits @ [Text ''\<newline>DOCUMENTS:'']
       @ map (\<lambda>i. Text (i @ '', '')) ids"

section \<open>Concrete services for the examples\<close>

definition demo_docs :: "nat document list" where
  "demo_docs =
     [\<lparr>page_content = ''attention'', metadata = 1\<rparr>,
      \<lparr>page_content = ''encoder'', metadata = 2\<rparr>,
      \<lparr>page_content = ''decoder'', metadata = 3\<rparr>,
      \<lparr>page_content = ''softmax'', metadata = 4\<rparr>]"

definition demo_langchain :: "nat langchain" where
  "demo_langchain =
     \<lparr>load_and_split = (\<lambda>url. Inr demo_docs),
      from_documents = (\<lambda>ds. Inr (\<lambda>query k. Inr (take (nat k) ds)))\<rparr>"

definition demo_events :: "string event list" where
  "demo_events =
     [\<lparr>event_type = ''stream-start'', event_text = [], event_citations = [],
       event_documents = []\<rparr>,
      \<lparr>event_type = ''text-generation'', event_text = ''Self'', event_citations = [],
       event_documents = []\<rparr>,
      \<lparr>event_type = ''citation-generation'', event_text = [], event_citations = [''c1''],
       event_documents = []\<rparr>,
      \<lparr>event_type = ''text-generation'', event_text = ''-attention'', event_citations = [],
       event_documents = []\<rparr>,
      \<lparr>event_type = ''search-results'', event_text = [], event_citations = [],
       event_documents = [[(''id'', ''d1''), (''text'', ''attention'')], [(''id'', ''d2'')]]\<rparr>,
      \<lparr>event_type = ''citation-generation'', event_text = [], event_citations = [''c2''],
       event_documents = []\<rparr>,
      \<lparr>event_type = ''stream-end'', event_text = [], event_citations = [],
       event_documents = []\<rparr>]"

text \<open>A client that plans no query for \<^verbatim>\<open>hello\<close> and the message twice for anything else,
  reranks the first two candidates in reverse order, and streams \<open>demo_events\<close>.\<close>

definition demo_client :: "(nat, string) client" where
  "demo_client =
     \<lparr>chat = (\<lambda>message only. Inr \<lparr>search_queries =
         (if message = ''hello'' then []
          else [\<lparr>query_text = message\<rparr>, \<lparr>query_text = message\<rparr>])\<rparr>),
      rerank = (\<lambda>query ds top_n model.
         Inr (take (nat top_n) (if 2 \<le> length ds then [\<lparr>index = 1\<rparr>, \<lparr>index = 0\<rparr>] else []))),
      chat_stream = (\<lambda>message model ds cid. Inr demo_events)\<rparr>"

text \<open>The same client with a reranker that refuses an empty list of documents.\<close>

definition strict_client :: "(nat, string) client" where
  "strict_client =
     demo_client\<lparr>rerank := (\<lambda>query ds top_n model.
       if ds = [] then Inl (ServiceError ''documents must not be empty'')
       else rerank demo_client query ds top_n model)\<rparr>"

definition demo_store :: "(nat, string) Vectorstore" where
  "demo_store =
     \<lparr>co = demo_client, docs = demo_docs, retrieve_top_k = 10, rerank_top_k = 3,
      vs = (\<lambda>query k. Inr (take (nat k) demo_docs))\<rparr>"

text \<open>Stores over a document with no page: the index finds nothing.\<close>

definition empty_store :: "(nat, string) Vectorstore" where
  "empty_store = demo_store\<lparr>docs := [], vs := (\<lambda>query k. Inr [])\<rparr>"

definition strict_empty_store :: "(nat, string) Vectorstore" where
  "strict_empty_store = empty_store\<lparr>co := strict_client\<rparr>"

definition demo_bot :: "(nat, string) PaperBot" where
  "demo_bot = PaperBot_init demo_client demo_store ''uuid-1''"

text \<open>A client whose streamed reply tells what it was called with: whether \<^verbatim>\<open>documents\<close>
  was given and, if so, the keys and strings of each dict, and the conversation id.\<close>

definition echo_reply :: "nat pydict list option \<Rightarrow> string \<Rightarrow> string event list" where
  "echo_reply ds cid =
     [\<lparr>event_type = ''text-generation'',
       event_text =
         (case ds of
            None \<Rightarrow> ''documents omitted''
          | Some d \<Rightarrow>
              ''documents: ''
                @ concat (map (\<lambda>p. concat (map (\<lambda>(k, v). k @ ''=''
                    @ (case v of Str s \<Rightarrow> s | Meta m \<Rightarrow> ''page'') @ '' '') p) @ ''| '') d)),
       event_citations = [], event_documents = []\<rparr>,
      \<lparr>event_type = ''text-generation'', event_text = ''id: '' @ cid,
       event_citations = [], event_documents = []\<rparr>]"

definition echo_client :: "(nat, string) client" where
  "echo_client = demo_client\<lparr>chat_stream := (\<lambda>message model ds cid. Inr (echo_reply ds cid))\<rparr>"

definition echo_store :: "(nat, string) Vectorstore" where
  "echo_store = demo_store\<lparr>co := echo_client\<rparr>"

definition echo_empty_store :: "(nat, string) Vectorstore" where
  "echo_empty_store = empty_store\<lparr>co := echo_client\<rparr>"

definition echo_bot :: "(nat, string) PaperBot" where
  "echo_bot = PaperBot_init echo_client echo_store ''uuid-3''"

definition echo_empty_bot :: "(nat, string) PaperBot" where
  "echo_empty_bot = PaperBot_init echo_client echo_empty_store ''uuid-4''"

section \<open>Retrieval\<close>

lemma getitem_Nil: "getitem [] i = Inl IndexError"
  by (auto simp: getitem_def)

lemma getitem_mem: "getitem xs i = Inr x \<Longrightarrow> x \<in> set xs"
  by (auto simp: getitem_def split: if_splits)

lemma reranked_docs_length: "reranked_docs ds rs = Inr out \<Longrightarrow> length out = length rs"
  by (induction rs arbitrary: out) (auto split: sum.splits)

lemma reranked_docs_mem:
  "reranked_docs ds rs = Inr out \<Longrightarrow> p \<in> set out \<Longrightarrow> \<exists>d\<in>set ds. p = passage_of d"
proof (induction rs arbitrary: out)
  case Nil
  then show ?case by simp
next
  case (Cons r rs)
  from Cons.prems(1) obtain d rest where
    d: "getitem ds (index r) = Inr d" and rest: "reranked_docs ds rs = Inr rest"
    and out: "out = passage_of d # rest"
    by (auto simp: passage_of_def split: sum.splits)
  from Cons.prems(2) out have "p = passage_of d \<or> p \<in> set rest" by simp
  then show ?case
  proof
    assume "p = passage_of d"
    with getitem_mem [OF d] show ?thesis by blast
  next
    assume "p \<in> set rest"
    with Cons.IH [OF rest] show ?thesis .
  qed
qed

lemma retrieve_Inr:
  "snd (retrieve self query) = Inr out \<Longrightarrow>
   \<exists>cands rs. vs self query (retrieve_top_k self) = Inr cands \<and>
     rerank (co self) query (map page_content cands) (rerank_top_k self) ''rerank-english-v2.0'' = Inr rs \<and>
     reranked_docs cands rs = Inr out"
  by (auto simp: retrieve_def Let_def split: sum.splits)

text \<open>
  C1. With a reranker that keeps its contract of returning at most \<^verbatim>\<open>top_n\<close> results, every
  list that \<^verbatim>\<open>retrieve\<close> returns, for every query, on a store built by \<^verbatim>\<open>__init__\<close>, has at
  most \<^verbatim>\<open>rerank_top_k\<close> entries, and \<^verbatim>\<open>rerank_top_k\<close> (3) is at most \<^verbatim>\<open>retrieve_top_k\<close> (10).
\<close>

theorem retrieve_length_bound:
  assumes "Vectorstore_init lc c paper_url = Inr self"
    and "rerank_within_top_n c"
    and "snd (retrieve self query) = Inr out"
  shows "int (length out) \<le> rerank_top_k self \<and> rerank_top_k self \<le> retrieve_top_k self"
proof -
  from assms(1) have k: "rerank_top_k self = 3" "retrieve_top_k self = 10" "co self = c"
    by (auto simp: Vectorstore_init_def split: sum.splits)
  from retrieve_Inr [OF assms(3)] obtain cands rs where
    rs: "rerank (co self) query (map page_content cands) (rerank_top_k self) ''rerank-english-v2.0'' = Inr rs"
    and out: "reranked_docs cands rs = Inr out"
    by blast
  from rs assms(2) k have "length rs \<le> nat (rerank_top_k self)"
    unfolding rerank_within_top_n_def by blast
  with reranked_docs_length [OF out] k show ?thesis by simp
qed

text \<open>
  C2. Every passage \<^verbatim>\<open>retrieve\<close> returns is the text and the metadata of one of the candidates
  that the similarity search returned for the same query.
\<close>

theorem retrieve_subset:
  assumes "vs self query (retrieve_top_k self) = Inr candidates"
    and "snd (retrieve self query) = Inr out"
  shows "\<forall>p\<in>set out. \<exists>d\<in>set candidates. p = passage_of d"
  using assms retrieve_Inr [OF assms(2)] by (auto dest: reranked_docs_mem)

text \<open>
  C3, amended. When the similarity search returns no candidate, \<^verbatim>\<open>retrieve\<close> calls the
  reranker with an empty list of documents; it returns the empty list exactly when that call
  returns no result, an error of the reranker is the error of \<^verbatim>\<open>retrieve\<close>, and any result
  the reranker returns makes the subscript raise \<^verbatim>\<open>IndexError\<close>.
\<close>

theorem retrieve_no_candidates:
  assumes "vs self query (retrieve_top_k self) = Inr []"
  shows "fst (retrieve self query)
           = [Similarity_search_call query (retrieve_top_k self),
              Rerank_call query [] (rerank_top_k self) ''rerank-english-v2.0'']
         \<and> (snd (retrieve self query) = Inr []) =
             (rerank (co self) query [] (rerank_top_k self) ''rerank-english-v2.0'' = Inr [])
         \<and> (case rerank (co self) query [] (rerank_top_k self) ''rerank-english-v2.0'' of
              Inl e \<Rightarrow> snd (retrieve self query) = Inl e
            | Inr results \<Rightarrow>
                snd (retrieve self query) = (if results = [] then Inr [] else Inl IndexError))"
proof (cases "rerank (co self) query [] (rerank_top_k self) ''rerank-english-v2.0''")
  case (Inl e)
  with assms show ?thesis by (simp add: retrieve_def)
next
  case (Inr results)
  show ?thesis
  proof (cases results)
    case Nil
    with Inr assms show ?thesis by (simp add: retrieve_def)
  next
    case (Cons r rs)
    with Inr assms show ?thesis by (simp add: retrieve_def getitem_Nil)
  qed
qed

section \<open>The retrieval loop\<close>

lemma reranked_docs_passages:
  "reranked_docs ds rs = Inr out \<Longrightarrow> \<exists>sel. set sel \<subseteq> set ds \<and> out = map passage_of sel"
proof (induction rs arbitrary: out)
  case Nil
  then show ?case by simp
next
  case (Cons r rs)
  from Cons.prems obtain d rest where
    d: "getitem ds (index r) = Inr d" and rest: "reranked_docs ds rs = Inr rest"
    and out: "out = passage_of d # rest"
    by (auto simp: passage_of_def split: sum.splits)
  from Cons.IH [OF rest] obtain sel where sel: "set sel \<subseteq> set ds" "rest = map passage_of sel"
    by blast
  from getitem_mem [OF d] sel out have "set (d # sel) \<subseteq> set ds \<and> out = map passage_of (d # sel)"
    by simp
  then show ?case by blast
qed

lemma retrieve_passages:
  assumes "snd (retrieve self query) = Inr out"
  shows "\<exists>sel. out = map passage_of sel"
  using retrieve_Inr [OF assms] reranked_docs_passages by blast

lemma retrieve_queries_concat:
  "list_all2 (\<lambda>q r. snd (retrieve vstore (query_text q)) = Inr r) queries results \<Longrightarrow>
   retrieve_queries vstore queries acc =
     (concat (map (\<lambda>q. fst (retrieve vstore (query_text q))) queries), Inr (acc @ concat results))"
proof (induction queries results arbitrary: acc rule: list_all2_induct)
  case Nil
  then show ?case by simp
next
  case (Cons q qs r rs)
  obtain tr where tr: "retrieve vstore (query_text q) = (tr, Inr r)"
    using Cons.hyps(1) by (cases "retrieve vstore (query_text q)") simp
  show ?case by (simp add: tr Cons.IH)
qed

lemma retrieve_queries_Inr:
  "snd (retrieve_queries vstore queries acc) = Inr documents \<Longrightarrow>
   \<exists>results. list_all2 (\<lambda>q r. snd (retrieve vstore (query_text q)) = Inr r) queries results
     \<and> documents = acc @ concat results"
proof (induction queries arbitrary: acc)
  case Nil
  then show ?case by simp
next
  case (Cons q qs)
  obtain tr res where tr: "retrieve vstore (query_text q) = (tr, res)"
    by (cases "retrieve vstore (query_text q)")
  show ?case
  proof (cases res)
    case (Inl e)
    with Cons.prems tr show ?thesis by simp
  next
    case (Inr found)
    with Cons.prems tr have "snd (retrieve_queries vstore qs (acc @ found)) = Inr documents"
      by (simp split: prod.splits)
    from Cons.IH [OF this] obtain results where
      r: "list_all2 (\<lambda>q r. snd (retrieve vstore (query_text q)) = Inr r) qs results"
      and d: "documents = (acc @ found) @ concat results"
      by blast
    from r d tr Inr have
      "list_all2 (\<lambda>q r. snd (retrieve vstore (query_text q)) = Inr r) (q # qs) (found # results)
       \<and> documents = acc @ concat (found # results)"
      by simp
    then show ?thesis by blast
  qed
qed

lemma retrieve_trace: "Chat_stream_call m mdl ds cid \<notin> set (fst (retrieve self query))"
  by (simp add: retrieve_def Let_def split: sum.splits)

lemma retrieve_queries_trace:
  "Chat_stream_call m mdl ds cid \<notin> set (fst (retrieve_queries vstore queries acc))"
proof (induction queries arbitrary: acc)
  case Nil
  then show ?case by simp
next
  case (Cons q qs)
  obtain tr res where tr: "retrieve vstore (query_text q) = (tr, res)"
    by (cases "retrieve vstore (query_text q)")
  with retrieve_trace [of m mdl ds cid vstore "query_text q"]
  have n: "Chat_stream_call m mdl ds cid \<notin> set tr" by simp
  show ?case
  proof (cases res)
    case (Inl e)
    with tr n show ?thesis by simp
  next
    case (Inr found)
    with tr n Cons.IH [of "acc @ found"] show ?thesis
      by (cases "retrieve_queries vstore qs (acc @ found)") simp
  qed
qed

lemma passages_concat:
  "list_all2 (\<lambda>q r. snd (retrieve vstore (query_text q)) = Inr r) queries results \<Longrightarrow>
   \<exists>sel. concat results = map passage_of sel"
proof (induction queries results rule: list_all2_induct)
  case Nil
  then show ?case by simp
next
  case (Cons q qs r rs)
  from retrieve_passages [OF Cons.hyps(1)] obtain s1 where "r = map passage_of s1" by blast
  moreover from Cons.IH obtain s2 where "concat rs = map passage_of s2" by blast
  ultimately have "concat (r # rs) = map passage_of (s1 @ s2)" by simp
  then show ?case by blast
qed

lemma document_contents_passages:
  "document_contents (map passage_of sel) = Inr (map text_only sel)"
  by (induction sel) (simp_all add: passage_of_def text_only_def dict_get_def)

section \<open>The output sequence\<close>

lemma consume_events_buffers:
  "consume_events events stream_responses cits cited_documents =
     (stream_responses @ map Text (text_chunks events),
      cits @ all_citations events,
      foldl (\<lambda>acc e. if event_type e = ''search-results'' then event_documents e else acc)
        cited_documents events)"
  by (induction events arbitrary: stream_responses cits cited_documents)
     (simp_all add: text_chunks_def all_citations_def)

lemma consume_events_start:
  "consume_events events [] [] [] =
     (map Text (text_chunks events), all_citations events, last_documents events)"
  by (simp add: consume_events_buffers last_documents_def)

lemma document_ids_ok:
  "list_all2 (\<lambda>d i. map_of d ''id'' = Some i) cited ids \<Longrightarrow>
   document_ids cited = Inr (map (\<lambda>i. Text (i @ '', '')) ids)"
  by (induction cited ids rule: list_all2_induct) (simp_all add: dict_get_def)

lemma document_ids_Inr:
  "document_ids cited = Inr out \<Longrightarrow>
   \<exists>ids. list_all2 (\<lambda>d i. map_of d ''id'' = Some i) cited ids
      \<and> out = map (\<lambda>i. Text (i @ '', '')) ids"
proof (induction cited arbitrary: out)
  case Nil
  then show ?case by simp
next
  case (Cons d ds)
  from Cons.prems obtain i rest where
    i: "map_of d ''id'' = Some i" and rest: "document_ids ds = Inr rest"
    and out: "out = Text (i @ '', '') # rest"
    by (auto simp: dict_get_def split: option.splits sum.splits)
  from Cons.IH [OF rest] obtain ids where
    ids: "list_all2 (\<lambda>d i. map_of d ''id'' = Some i) ds ids"
    and r: "rest = map (\<lambda>i. Text (i @ '', '')) ids"
    by blast
  from i ids out r have
    "list_all2 (\<lambda>d i. map_of d ''id'' = Some i) (d # ds) (i # ids)
     \<and> out = map (\<lambda>i. Text (i @ '', '')) (i # ids)"
    by simp
  then show ?case by blast
qed

lemma build_output_Inr:
  assumes "build_output (Inr events) = Inr out"
  shows "\<exists>ids. (all_citations events \<noteq> [] \<longrightarrow>
            list_all2 (\<lambda>d i. map_of d ''id'' = Some i) (last_documents events) ids)
          \<and> out = map Text (text_chunks events)
                @ (if all_citations events = [] then []
                   else citations_block (all_citations events) ids)"
proof (cases "all_citations events = []")
  case True
  with assms show ?thesis
    by (simp add: build_output_def consume_events_start citation_block_def)
next
  case False
  with assms obtain block where
    b: "document_ids (last_documents events) = Inr block"
    and o: "out = map Text (text_chunks events) @ [Text ''\<newline>\<newline>CITATIONS:'']
              @ map Cite (all_citations events) @ [Text ''\<newline>DOCUMENTS:''] @ block"
    by (auto simp: build_output_def consume_events_start citation_block_def split: sum.splits)
  from b obtain ids where
    "list_all2 (\<lambda>d i. map_of d ''id'' = Some i) (last_documents events) ids"
    "block = map (\<lambda>i. Text (i @ '', '')) ids"
    using document_ids_Inr by blast
  with o False show ?thesis
    by (auto simp: citations_block_def)
qed

lemma chat_completion_direct:
  assumes "chat (bot_co self) message True = Inr response"
    and "search_queries response = []"
  shows "chat_completion self message =
     ([Chat_call message True,
       Chat_stream_call message ''command-r'' None (conversation_id self)],
      build_output (chat_stream (bot_co self) message ''command-r'' None (conversation_id self)))"
  using assms by (simp add: chat_completion_def)

lemma chat_completion_grounded:
  assumes "chat (bot_co self) message True = Inr response"
    and "search_queries response \<noteq> []"
    and "retrieve_queries (vectorstore self) (search_queries response) [] = (tr, Inr ctx)"
    and "document_contents ctx = Inr contents"
  shows "chat_completion self message =
     (Chat_call message True # tr
        @ [Chat_stream_call message ''command-r'' (Some contents) (conversation_id self)],
      build_output
        (chat_stream (bot_co self) message ''command-r'' (Some contents) (conversation_id self)))"
  using assms by (simp add: chat_completion_def)

lemma chat_completion_cases:
  obtains (chat_error) e where
      "chat (bot_co self) message True = Inl e"
      "chat_completion self message = ([Chat_call message True], Inl e)"
  | (direct) response where
      "chat (bot_co self) message True = Inr response" "search_queries response = []"
  | (retrieve_error) response tr e where
      "chat (bot_co self) message True = Inr response" "search_queries response \<noteq> []"
      "retrieve_queries (vectorstore self) (search_queries response) [] = (tr, Inl e)"
      "chat_completion self message = (Chat_call message True # tr, Inl e)"
  | (contents_error) response tr ctx e where
      "chat (bot_co self) message True = Inr response" "search_queries response \<noteq> []"
      "retrieve_queries (vectorstore self) (search_queries response) [] = (tr, Inr ctx)"
      "document_contents ctx = Inl e"
      "chat_completion self message = (Chat_call message True # tr, Inl e)"
  | (grounded) response tr ctx contents where
      "chat (bot_co self) message True = Inr response" "search_queries response \<noteq> []"
      "retrieve_queries (vectorstore self) (search_queries response) [] = (tr, Inr ctx)"
      "document_contents ctx = Inr contents"
proof (cases "chat (bot_co self) message True")
  case (Inl e)
  then have "chat_completion self message = ([Chat_call message True], Inl e)"
    by (simp add: chat_completion_def)
  with Inl show ?thesis by (rule chat_error)
next
  case (Inr response)
  show ?thesis
  proof (cases "search_queries response = []")
    case True
    with Inr show ?thesis by (rule direct)
  next
    case False
    obtain tr res where r: "retrieve_queries (vectorstore self) (search_queries response) [] = (tr, res)"
      by (cases "retrieve_queries (vectorstore self) (search_queries response) []")
    show ?thesis
    proof (cases res)
      case (Inl e)
      with Inr False r have "chat_completion self message = (Chat_call message True # tr, Inl e)"
        by (simp add: chat_completion_def)
      with Inr False r Inl show ?thesis using retrieve_error by blast
    next
      case ctx: (Inr ctx)
      show ?thesis
      proof (cases "document_contents ctx")
        case (Inl e)
        with Inr False r ctx have "chat_completion self message = (Chat_call message True # tr, Inl e)"
          by (simp add: chat_completion_def)
        with Inr False r ctx Inl show ?thesis using contents_error by blast
      next
        case c: (Inr contents)
        with Inr False r ctx show ?thesis using grounded by blast
      qed
    qed
  qed
qed

lemma build_output_events: "build_output r = Inr out \<Longrightarrow> \<exists>events. r = Inr events"
  by (cases r) (simp_all add: build_output_def)

lemma chat_completion_Inr:
  assumes "snd (chat_completion self message) = Inr out"
  shows "\<exists>ds events.
           Chat_stream_call message ''command-r'' ds (conversation_id self)
             \<in> set (fst (chat_completion self message))
           \<and> chat_stream (bot_co self) message ''command-r'' ds (conversation_id self) = Inr events
           \<and> build_output (Inr events) = Inr out"
proof (cases self message rule: chat_completion_cases)
  case (chat_error e)
  with assms show ?thesis by simp
next
  case (direct response)
  note eq = chat_completion_direct [OF direct]
  from assms eq
  have b: "build_output (chat_stream (bot_co self) message ''command-r'' None (conversation_id self))
             = Inr out"
    by simp
  from build_output_events [OF b] obtain events where
    e: "chat_stream (bot_co self) message ''command-r'' None (conversation_id self) = Inr events"
    by blast
  have "Chat_stream_call message ''command-r'' None (conversation_id self)
          \<in> set (fst (chat_completion self message))"
    by (simp add: eq)
  with e b show ?thesis by metis
next
  case (retrieve_error response tr e)
  with assms show ?thesis by simp
next
  case (contents_error response tr ctx e)
  with assms show ?thesis by simp
next
  case (grounded response tr ctx contents)
  note eq = chat_completion_grounded [OF grounded]
  from assms eq
  have b: "build_output
             (chat_stream (bot_co self) message ''command-r'' (Some contents) (conversation_id self))
             = Inr out"
    by simp
  from build_output_events [OF b] obtain events where
    e: "chat_stream (bot_co self) message ''command-r'' (Some contents) (conversation_id self)
          = Inr events"
    by blast
  have "Chat_stream_call message ''command-r'' (Some contents) (conversation_id self)
          \<in> set (fst (chat_completion self message))"
    by (simp add: eq)
  with e b show ?thesis by metis
qed

lemma chat_completion_calls:
  assumes "Chat_stream_call m mdl ds cid \<in> set (fst (chat_completion self message))"
  shows "m = message \<and> mdl = ''command-r'' \<and> cid = conversation_id self"
proof (cases self message rule: chat_completion_cases)
  case (chat_error e)
  with assms show ?thesis by simp
next
  case (direct response)
  from assms chat_completion_direct [OF direct] show ?thesis by simp
next
  case (retrieve_error response tr e)
  with assms retrieve_queries_trace [of m mdl ds cid "vectorstore self" "search_queries response" "[]"]
  show ?thesis by simp
next
  case (contents_error response tr ctx e)
  with assms retrieve_queries_trace [of m mdl ds cid "vectorstore self" "search_queries response" "[]"]
  show ?thesis by simp
next
  case (grounded response tr ctx contents)
  with assms chat_completion_grounded [OF grounded]
    retrieve_queries_trace [of m mdl ds cid "vectorstore self" "search_queries response" "[]"]
  show ?thesis by simp
qed

lemma chat_completion_passages:
  assumes "chat (bot_co self) message True = Inr response"
    and "search_queries response \<noteq> []"
    and "snd (retrieve_queries (vectorstore self) (search_queries response) []) = Inr ctx"
  shows "\<exists>sel. ctx = map passage_of sel
           \<and> chat_completion self message =
               (Chat_call message True
                  # fst (retrieve_queries (vectorstore self) (search_queries response) [])
                  @ [Chat_stream_call message ''command-r'' (Some (map text_only sel))
                       (conversation_id self)],
                build_output
                  (chat_stream (bot_co self) message ''command-r'' (Some (map text_only sel))
                     (conversation_id self)))"
proof -
  obtain tr where tr: "retrieve_queries (vectorstore self) (search_queries response) [] = (tr, Inr ctx)"
    using assms(3) by (cases "retrieve_queries (vectorstore self) (search_queries response) []") simp
  from retrieve_queries_Inr [OF assms(3)] obtain results where
    r: "list_all2 (\<lambda>q r. snd (retrieve (vectorstore self) (query_text q)) = Inr r)
          (search_queries response) results"
    and c: "ctx = concat results"
    by auto
  from passages_concat [OF r] c obtain sel where sel: "ctx = map passage_of sel" by auto
  then have d: "document_contents ctx = Inr (map text_only sel)"
    by (simp add: document_contents_passages)
  from chat_completion_grounded [OF assms(1,2) tr d] tr sel show ?thesis by auto
qed

lemma document_contents_retrieved:
  assumes "snd (retrieve_queries vstore queries []) = Inr ctx"
  shows "\<exists>contents. document_contents ctx = Inr contents"
proof -
  from retrieve_queries_Inr [OF assms] obtain results where
    r: "list_all2 (\<lambda>q r. snd (retrieve vstore (query_text q)) = Inr r) queries results"
    and c: "ctx = concat results"
    by auto
  from passages_concat [OF r] c obtain sel where "ctx = map passage_of sel" by auto
  then show ?thesis by (simp add: document_contents_passages)
qed

section \<open>Properties of \<^verbatim>\<open>chat_completion\<close>\<close>

text \<open>
  C5. When query planning returns no search query, \<^verbatim>\<open>chat_completion\<close> makes exactly two
  calls, the planning call and the streaming generation call, and what it yields is built
  from the reply of \<^verbatim>\<open>chat_stream\<close> applied to the message, the model and the conversation
  id, with no \<^verbatim>\<open>documents\<close> argument.
\<close>

theorem chat_completion_no_queries:
  assumes "chat (bot_co self) message True = Inr response"
    and "search_queries response = []"
  shows "chat_completion self message =
           ([Chat_call message True,
             Chat_stream_call message ''command-r'' None (conversation_id self)],
            build_output
              (chat_stream (bot_co self) message ''command-r'' None (conversation_id self)))"
  using assms by (simp add: chat_completion_def)

text \<open>
  C4, amended. When query planning and every retrieval succeed, the \<^verbatim>\<open>documents\<close> argument
  of the streaming generation call is left out exactly when no search query was planned.
  With one or more search queries \<^verbatim>\<open>chat_stream\<close> is applied to a \<^verbatim>\<open>documents\<close> list with one
  dict per passage of the accumulated context, hence to the empty list when that context is
  empty.
\<close>

theorem chat_completion_documents_passed:
  assumes "chat (bot_co self) message True = Inr response"
    and "snd (retrieve_queries (vectorstore self) (search_queries response) []) = Inr ctx"
  shows "\<exists>contents. document_contents ctx = Inr contents \<and> length contents = length ctx
           \<and> chat_completion self message =
               (if search_queries response = [] then
                  ([Chat_call message True,
                    Chat_stream_call message ''command-r'' None (conversation_id self)],
                   build_output
                     (chat_stream (bot_co self) message ''command-r'' None
                        (conversation_id self)))
                else
                  (Chat_call message True
                     # fst (retrieve_queries (vectorstore self) (search_queries response) [])
                     @ [Chat_stream_call message ''command-r'' (Some contents)
                          (conversation_id self)],
                   build_output
                     (chat_stream (bot_co self) message ''command-r'' (Some contents)
                        (conversation_id self))))"
proof (cases "search_queries response = []")
  case True
  with assms(2) have "ctx = []" by simp
  with True chat_completion_direct [OF assms(1) True] show ?thesis by simp
next
  case False
  from chat_completion_passages [OF assms(1) False assms(2)] obtain sel where
    sel: "ctx = map passage_of sel"
    and eq: "chat_completion self message =
               (Chat_call message True
                  # fst (retrieve_queries (vectorstore self) (search_queries response) [])
                  @ [Chat_stream_call message ''command-r'' (Some (map text_only sel))
                       (conversation_id self)],
                build_output
                  (chat_stream (bot_co self) message ''command-r'' (Some (map text_only sel))
                     (conversation_id self)))"
    by blast
  from sel have "document_contents ctx = Inr (map text_only sel)
      \<and> length (map text_only sel) = length ctx"
    by (simp add: document_contents_passages)
  with eq False show ?thesis by auto
qed

text \<open>
  C8. For one \<^verbatim>\<open>PaperBot\<close>, whose conversation id was drawn by \<^verbatim>\<open>__init__\<close>, and any
  messages of the conversation: each call of \<^verbatim>\<open>chat_completion\<close> either ends before the
  generation call (planning or retrieval raised, and no generation call is made) or makes one
  generation call, last, and what it yields is built from the reply of \<^verbatim>\<open>chat_stream\<close>
  applied to that same id. \<^verbatim>\<open>chat_completion\<close> assigns no attribute of \<^verbatim>\<open>self\<close>, so every
  call runs on the same record.
\<close>

theorem conversation_id_stable:
  assumes "self = PaperBot_init c vstore uuid4"
  shows "\<forall>message\<in>set messages.
           (\<exists>e. (chat c message True = Inl e
                  \<or> (\<exists>response. chat c message True = Inr response
                        \<and> snd (retrieve_queries vstore (search_queries response) []) = Inl e))
                \<and> snd (chat_completion self message) = Inl e
                \<and> (\<forall>m mdl ds cid.
                      Chat_stream_call m mdl ds cid \<notin> set (fst (chat_completion self message))))
           \<or> (\<exists>tr ds. (\<forall>m mdl ds' cid. Chat_stream_call m mdl ds' cid \<notin> set tr)
                \<and> chat_completion self message =
                    (tr @ [Chat_stream_call message ''command-r'' ds uuid4],
                     build_output (chat_stream c message ''command-r'' ds uuid4)))"
proof
  fix message
  assume "message \<in> set messages"
  from assms have s: "bot_co self = c" "vectorstore self = vstore" "conversation_id self = uuid4"
    by (simp_all add: PaperBot_init_def)
  let ?before = "\<lambda>message. \<exists>e. (chat c message True = Inl e
                  \<or> (\<exists>response. chat c message True = Inr response
                        \<and> snd (retrieve_queries vstore (search_queries response) []) = Inl e))
                \<and> snd (chat_completion self message) = Inl e
                \<and> (\<forall>m mdl ds cid.
                      Chat_stream_call m mdl ds cid \<notin> set (fst (chat_completion self message)))"
  let ?call = "\<lambda>message. \<exists>tr ds. (\<forall>m mdl ds' cid. Chat_stream_call m mdl ds' cid \<notin> set tr)
                \<and> chat_completion self message =
                    (tr @ [Chat_stream_call message ''command-r'' ds uuid4],
                     build_output (chat_stream c message ''command-r'' ds uuid4))"
  show "?before message \<or> ?call message"
  proof (cases self message rule: chat_completion_cases)
    case (chat_error e)
    then have "?before message" using s by auto
    then show ?thesis ..
  next
    case (direct response)
    from chat_completion_direct [OF direct] s
    have "(\<forall>m mdl ds' cid. Chat_stream_call m mdl ds' cid \<notin> set [Chat_call message True])
          \<and> chat_completion self message =
              ([Chat_call message True] @ [Chat_stream_call message ''command-r'' None uuid4],
               build_output (chat_stream c message ''command-r'' None uuid4))"
      by simp
    then have "?call message" by blast
    then show ?thesis ..
  next
    case (retrieve_error response tr e)
    have "\<forall>m mdl ds cid. Chat_stream_call m mdl ds cid \<notin> set tr"
      using retrieve_queries_trace [of _ _ _ _ "vectorstore self" "search_queries response" "[]"]
        retrieve_error(3)
      by simp
    with retrieve_error s have "?before message" by auto
    then show ?thesis ..
  next
    case (contents_error response tr ctx e)
    from contents_error(3) have "snd (retrieve_queries (vectorstore self) (search_queries response) []) = Inr ctx"
      by simp
    from document_contents_retrieved [OF this] contents_error(4) show ?thesis by simp
  next
    case (grounded response tr ctx contents)
    have n: "\<forall>m mdl ds cid. Chat_stream_call m mdl ds cid \<notin> set (Chat_call message True # tr)"
      using retrieve_queries_trace [of _ _ _ _ "vectorstore self" "search_queries response" "[]"]
        grounded(3)
      by simp
    from chat_completion_grounded [OF grounded] s
    have "chat_completion self message =
              ((Chat_call message True # tr) @ [Chat_stream_call message ''command-r'' (Some contents) uuid4],
               build_output (chat_stream c message ''command-r'' (Some contents) uuid4))"
      by simp
    with n have "?call message" by blast
    then show ?thesis ..
  qed
qed

text \<open>
  C9. When query planning returns one or more search queries and \<^verbatim>\<open>retrieve\<close> succeeds on
  each, the accumulated document context is the concatenation of the results of \<^verbatim>\<open>retrieve\<close>
  in the order of the queries, nothing removed, and the context of the generation call is
  built from that list.
\<close>

theorem documents_concatenated:
  assumes "chat (bot_co self) message True = Inr response"
    and "search_queries response \<noteq> []"
    and "list_all2 (\<lambda>q r. snd (retrieve (vectorstore self) (query_text q)) = Inr r)
           (search_queries response) results"
  shows "snd (retrieve_queries (vectorstore self) (search_queries response) [])
           = Inr (concat results)
         \<and> (\<exists>contents. document_contents (concat results) = Inr contents
              \<and> last (fst (chat_completion self message)) =
                  Chat_stream_call message ''command-r'' (Some contents) (conversation_id self))"
proof -
  note q = retrieve_queries_concat [OF assms(3), of "[]"]
  from passages_concat [OF assms(3)] obtain sel where sel: "concat results = map passage_of sel"
    by auto
  then have d: "document_contents (concat results) = Inr (map text_only sel)"
    by (simp add: document_contents_passages)
  from q have q': "retrieve_queries (vectorstore self) (search_queries response) [] =
     (concat (map (\<lambda>q. fst (retrieve (vectorstore self) (query_text q))) (search_queries response)),
      Inr (concat results))"
    by simp
  from chat_completion_grounded [OF assms(1,2) q' d]
  have "last (fst (chat_completion self message)) =
          Chat_stream_call message ''command-r'' (Some (map text_only sel)) (conversation_id self)"
    by simp
  with d q' show ?thesis by simp
qed

text \<open>
  C10. When query planning returns one or more search queries and every retrieval succeeds,
  \<^verbatim>\<open>chat_stream\<close> is applied to a \<^verbatim>\<open>documents\<close> list that holds, for each retrieved passage
  in order, a dict with the one key \<^verbatim>\<open>"text"\<close> and the text of that passage; the metadata
  that \<^verbatim>\<open>retrieve\<close> attached to the passage is not sent.
\<close>

theorem documents_text_only:
  assumes "chat (bot_co self) message True = Inr response"
    and "search_queries response \<noteq> []"
    and "snd (retrieve_queries (vectorstore self) (search_queries response) []) = Inr ctx"
  shows "\<exists>sel. ctx = map passage_of sel
           \<and> list_all (\<lambda>d. map fst d = [''text'']) (map text_only sel)
           \<and> chat_completion self message =
               (Chat_call message True
                  # fst (retrieve_queries (vectorstore self) (search_queries response) [])
                  @ [Chat_stream_call message ''command-r'' (Some (map text_only sel))
                       (conversation_id self)],
                build_output
                  (chat_stream (bot_co self) message ''command-r'' (Some (map text_only sel))
                     (conversation_id self)))"
proof -
  have "list_all (\<lambda>d. map fst d = [''text'']) (map text_only sel)" for sel :: "'a document list"
    by (simp add: list_all_iff text_only_def)
  with chat_completion_passages [OF assms] show ?thesis by blast
qed

text \<open>
  C6. Whatever \<^verbatim>\<open>chat_completion\<close> yields is the text chunks of the streamed events, in
  arrival order, followed by a trailing block; the block is empty exactly when no citation
  arrived and starts with the citations header otherwise. So every text chunk stands before
  every element of the block.
\<close>

theorem text_before_citations:
  assumes "snd (chat_completion self message) = Inr out"
  shows "\<exists>ds events block.
           Chat_stream_call message ''command-r'' ds (conversation_id self)
             \<in> set (fst (chat_completion self message))
           \<and> chat_stream (bot_co self) message ''command-r'' ds (conversation_id self) = Inr events
           \<and> out = map Text (text_chunks events) @ block
           \<and> (block = []) = (all_citations events = [])
           \<and> (all_citations events \<noteq> [] \<longrightarrow> hd block = Text ''\<newline>\<newline>CITATIONS:'')"
proof -
  from chat_completion_Inr [OF assms] obtain ds events where
    c: "Chat_stream_call message ''command-r'' ds (conversation_id self)
          \<in> set (fst (chat_completion self message))"
    and e: "chat_stream (bot_co self) message ''command-r'' ds (conversation_id self) = Inr events"
    and b: "build_output (Inr events) = Inr out"
    by blast
  from build_output_Inr [OF b] obtain ids where
    o: "out = map Text (text_chunks events)
              @ (if all_citations events = [] then []
                 else citations_block (all_citations events) ids)"
    by blast
  define block where
    "block = (if all_citations events = [] then [] else citations_block (all_citations events) ids)"
  have "(block = []) = (all_citations events = [])"
    and "all_citations events \<noteq> [] \<longrightarrow> hd block = Text ''\<newline>\<newline>CITATIONS:''"
    by (simp_all add: block_def citations_block_def)
  with c e o show ?thesis unfolding block_def [symmetric] by blast
qed

text \<open>
  C7. After the text chunks, the output of \<^verbatim>\<open>chat_completion\<close> is, when the citations buffer
  is not empty, exactly the header \<^verbatim>\<open>"\n\nCITATIONS:"\<close>, each citation in arrival order, the
  header \<^verbatim>\<open>"\nDOCUMENTS:"\<close> and the id of each document of the last search-results event
  followed by a comma and a space; when the buffer is empty, nothing follows the chunks.
\<close>

theorem citation_block_format:
  assumes "snd (chat_completion self message) = Inr out"
  shows "\<exists>ds events ids.
           Chat_stream_call message ''command-r'' ds (conversation_id self)
             \<in> set (fst (chat_completion self message))
           \<and> chat_stream (bot_co self) message ''command-r'' ds (conversation_id self) = Inr events
           \<and> (all_citations events \<noteq> [] \<longrightarrow>
                list_all2 (\<lambda>d i. map_of d ''id'' = Some i) (last_documents events) ids)
           \<and> drop (length (text_chunks events)) out =
               (if all_citations events = [] then []
                else citations_block (all_citations events) ids)"
proof -
  from chat_completion_Inr [OF assms] obtain ds events where
    c: "Chat_stream_call message ''command-r'' ds (conversation_id self)
          \<in> set (fst (chat_completion self message))"
    and e: "chat_stream (bot_co self) message ''command-r'' ds (conversation_id self) = Inr events"
    and b: "build_output (Inr events) = Inr out"
    by blast
  from build_output_Inr [OF b] obtain ids where
    i: "all_citations events \<noteq> [] \<longrightarrow>
          list_all2 (\<lambda>d i. map_of d ''id'' = Some i) (last_documents events) ids"
    and o: "out = map Text (text_chunks events)
              @ (if all_citations events = [] then []
                 else citations_block (all_citations events) ids)"
    by blast
  from o have "drop (length (text_chunks events)) out =
               (if all_citations events = [] then []
                else citations_block (all_citations events) ids)"
    by simp
  with c e i show ?thesis by blast
qed

section \<open>Examples\<close>

lemma demo_retrieve:
  "retrieve demo_store ''q'' =
     ([Similarity_search_call ''q'' 10,
       Rerank_call ''q'' [''attention'', ''encoder'', ''decoder'', ''softmax''] 3
         ''rerank-english-v2.0''],
      Inr [[(''text'', Str ''encoder''), (''metadata'', Meta 2)],
           [(''text'', Str ''attention''), (''metadata'', Meta 1)]])"
  by (simp add: retrieve_def demo_store_def demo_client_def demo_docs_def getitem_def)

theorem retrieve_length_bound_witness:
  "Vectorstore_init demo_langchain demo_client ''https://arxiv.org/pdf/1706.03762.pdf''
     = Inr demo_store
   \<and> rerank_within_top_n demo_client
   \<and> snd (retrieve demo_store ''q'')
     = Inr [[(''text'', Str ''encoder''), (''metadata'', Meta 2)],
            [(''text'', Str ''attention''), (''metadata'', Meta 1)]]
   \<and> int (length [[(''text'', Str ''encoder''), (''metadata'', Meta (2::nat))],
                   [(''text'', Str ''attention''), (''metadata'', Meta 1)]])
       \<le> rerank_top_k demo_store
   \<and> rerank_top_k demo_store \<le> retrieve_top_k demo_store"
proof -
  have i: "Vectorstore_init demo_langchain demo_client ''https://arxiv.org/pdf/1706.03762.pdf''
             = Inr demo_store"
    by (simp add: Vectorstore_init_def load_docs_def embed_def demo_langchain_def demo_store_def)
  have c: "rerank_within_top_n demo_client"
    by (simp add: rerank_within_top_n_def demo_client_def)
  have r: "snd (retrieve demo_store ''q'')
     = Inr [[(''text'', Str ''encoder''), (''metadata'', Meta 2)],
            [(''text'', Str ''attention''), (''metadata'', Meta 1)]]"
    by (simp add: demo_retrieve)
  from retrieve_length_bound [OF i c r] i c r show ?thesis by simp
qed

theorem retrieve_subset_witness:
  "vs demo_store ''q'' (retrieve_top_k demo_store) = Inr demo_docs
   \<and> snd (retrieve demo_store ''q'')
     = Inr [[(''text'', Str ''encoder''), (''metadata'', Meta 2)],
            [(''text'', Str ''attention''), (''metadata'', Meta 1)]]
   \<and> (\<exists>d\<in>set demo_docs. [(''text'', Str ''encoder''), (''metadata'', Meta 2)] = passage_of d)
   \<and> (\<exists>d\<in>set demo_docs. [(''text'', Str ''attention''), (''metadata'', Meta 1)] = passage_of d)"
proof -
  have s: "vs demo_store ''q'' (retrieve_top_k demo_store) = Inr demo_docs"
    by (simp add: demo_store_def demo_docs_def)
  have r: "snd (retrieve demo_store ''q'')
     = Inr [[(''text'', Str ''encoder''), (''metadata'', Meta 2)],
            [(''text'', Str ''attention''), (''metadata'', Meta 1)]]"
    by (simp add: demo_retrieve)
  from retrieve_subset [OF s r] s r show ?thesis by simp
qed

text \<open>
  C3, as stated, fails: with no candidate, \<^verbatim>\<open>retrieve\<close> still calls the reranker, on an
  empty list of documents, and a reranker that refuses such a list makes \<^verbatim>\<open>retrieve\<close> raise.
\<close>

theorem retrieve_no_candidates_counterexample:
  "vs strict_empty_store ''q'' (retrieve_top_k strict_empty_store) = Inr []
   \<and> retrieve strict_empty_store ''q''
     = ([Similarity_search_call ''q'' 10, Rerank_call ''q'' [] 3 ''rerank-english-v2.0''],
        Inl (ServiceError ''documents must not be empty''))"
  by (simp add: retrieve_def strict_empty_store_def empty_store_def demo_store_def
      strict_client_def)

theorem retrieve_no_candidates_witness:
  "vs empty_store ''q'' (retrieve_top_k empty_store) = Inr []
   \<and> fst (retrieve empty_store ''q'')
       = [Similarity_search_call ''q'' 10, Rerank_call ''q'' [] 3 ''rerank-english-v2.0'']
   \<and> rerank (co empty_store) ''q'' [] (rerank_top_k empty_store) ''rerank-english-v2.0'' = Inr []
   \<and> snd (retrieve empty_store ''q'') = Inr []"
proof -
  have s: "vs empty_store ''q'' (retrieve_top_k empty_store) = Inr []"
    by (simp add: empty_store_def demo_store_def)
  have r: "rerank (co empty_store) ''q'' [] (rerank_top_k empty_store) ''rerank-english-v2.0''
             = Inr []"
    by (simp add: empty_store_def demo_store_def demo_client_def)
  have k: "retrieve_top_k empty_store = 10" "rerank_top_k empty_store = 3"
    by (simp_all add: empty_store_def demo_store_def)
  from retrieve_no_candidates [OF s] s r k show ?thesis by simp
qed

lemma demo_retrieve_queries:
  "retrieve_queries demo_store [\<lparr>query_text = ''q''\<rparr>, \<lparr>query_text = ''q''\<rparr>] [] =
     ([Similarity_search_call ''q'' 10,
       Rerank_call ''q'' [''attention'', ''encoder'', ''decoder'', ''softmax''] 3
         ''rerank-english-v2.0'',
       Similarity_search_call ''q'' 10,
       Rerank_call ''q'' [''attention'', ''encoder'', ''decoder'', ''softmax''] 3
         ''rerank-english-v2.0''],
      Inr [[(''text'', Str ''encoder''), (''metadata'', Meta 2)],
           [(''text'', Str ''attention''), (''metadata'', Meta 1)],
           [(''text'', Str ''encoder''), (''metadata'', Meta 2)],
           [(''text'', Str ''attention''), (''metadata'', Meta 1)]])"
  by (simp add: demo_retrieve)

lemma echo_bot_fields:
  "bot_co echo_bot = echo_client" "vectorstore echo_bot = echo_store"
  "conversation_id echo_bot = ''uuid-3''"
  "bot_co echo_empty_bot = echo_client" "vectorstore echo_empty_bot = echo_empty_store"
  "conversation_id echo_empty_bot = ''uuid-4''"
  by (simp_all add: echo_bot_def echo_empty_bot_def PaperBot_init_def)

lemma echo_chat:
  "chat echo_client ''hello'' True = Inr \<lparr>search_queries = []\<rparr>"
  "chat echo_client ''q'' True
     = Inr \<lparr>search_queries = [\<lparr>query_text = ''q''\<rparr>, \<lparr>query_text = ''q''\<rparr>]\<rparr>"
  by (simp_all add: echo_client_def demo_client_def)

lemma echo_stream:
  "build_output (chat_stream echo_client message model None ''uuid-3'')
     = Inr [Text ''documents omitted'', Text ''id: uuid-3'']"
  "build_output (chat_stream echo_client message model None ''uuid-4'')
     = Inr [Text ''documents omitted'', Text ''id: uuid-4'']"
  "build_output (chat_stream echo_client message model (Some []) ''uuid-4'')
     = Inr [Text ''documents: '', Text ''id: uuid-4'']"
  "build_output
     (chat_stream echo_client message model
        (Some [[(''text'', Str ''encoder'')], [(''text'', Str ''attention'')],
               [(''text'', Str ''encoder'')], [(''text'', Str ''attention'')]])
        ''uuid-3'')
     = Inr [Text ''documents: text=encoder | text=attention | text=encoder | text=attention | '',
            Text ''id: uuid-3'']"
  by (simp_all add: echo_client_def echo_reply_def build_output_def citation_block_def)

lemma echo_retrieve:
  "retrieve echo_store ''q'' =
     ([Similarity_search_call ''q'' 10,
       Rerank_call ''q'' [''attention'', ''encoder'', ''decoder'', ''softmax''] 3
         ''rerank-english-v2.0''],
      Inr [[(''text'', Str ''encoder''), (''metadata'', Meta 2)],
           [(''text'', Str ''attention''), (''metadata'', Meta 1)]])"
  by (simp add: retrieve_def echo_store_def echo_client_def demo_store_def demo_client_def
      demo_docs_def getitem_def)

lemma echo_empty_retrieve:
  "retrieve echo_empty_store ''q'' =
     ([Similarity_search_call ''q'' 10, Rerank_call ''q'' [] 3 ''rerank-english-v2.0''], Inr [])"
  by (simp add: retrieve_def echo_empty_store_def echo_client_def empty_store_def demo_store_def
      demo_client_def)

lemma echo_chat_hello:
  "chat_completion echo_bot ''hello'' =
     ([Chat_call ''hello'' True, Chat_stream_call ''hello'' ''command-r'' None ''uuid-3''],
      Inr [Text ''documents omitted'', Text ''id: uuid-3''])"
  by (simp add: chat_completion_def echo_bot_fields echo_chat echo_stream)

lemma echo_chat_q:
  "chat_completion echo_bot ''q'' =
     ([Chat_call ''q'' True,
       Similarity_search_call ''q'' 10,
       Rerank_call ''q'' [''attention'', ''encoder'', ''decoder'', ''softmax''] 3
         ''rerank-english-v2.0'',
       Similarity_search_call ''q'' 10,
       Rerank_call ''q'' [''attention'', ''encoder'', ''decoder'', ''softmax''] 3
         ''rerank-english-v2.0'',
       Chat_stream_call ''q'' ''command-r''
         (Some [[(''text'', Str ''encoder'')], [(''text'', Str ''attention'')],
                [(''text'', Str ''encoder'')], [(''text'', Str ''attention'')]])
         ''uuid-3''],
      Inr [Text ''documents: text=encoder | text=attention | text=encoder | text=attention | '',
           Text ''id: uuid-3''])"
  by (simp add: chat_completion_def echo_bot_fields echo_chat echo_retrieve dict_get_def
      echo_stream)

lemma echo_empty_chat_q:
  "chat_completion echo_empty_bot ''q'' =
     ([Chat_call ''q'' True,
       Similarity_search_call ''q'' 10, Rerank_call ''q'' [] 3 ''rerank-english-v2.0'',
       Similarity_search_call ''q'' 10, Rerank_call ''q'' [] 3 ''rerank-english-v2.0'',
       Chat_stream_call ''q'' ''command-r'' (Some []) ''uuid-4''],
      Inr [Text ''documents: '', Text ''id: uuid-4''])"
  by (simp add: chat_completion_def echo_bot_fields echo_chat echo_empty_retrieve echo_stream)

lemma demo_build_output:
  "build_output (Inr demo_events) =
     Inr [Text ''Self'', Text ''-attention'', Text ''\<newline>\<newline>CITATIONS:'', Cite ''c1'',
          Cite ''c2'', Text ''\<newline>DOCUMENTS:'', Text ''d1, '', Text ''d2, '']"
  by (simp add: build_output_def demo_events_def citation_block_def dict_get_def)

lemma demo_chat_hello:
  "chat_completion demo_bot ''hello'' =
     ([Chat_call ''hello'' True, Chat_stream_call ''hello'' ''command-r'' None ''uuid-1''],
      Inr [Text ''Self'', Text ''-attention'', Text ''\<newline>\<newline>CITATIONS:'', Cite ''c1'',
           Cite ''c2'', Text ''\<newline>DOCUMENTS:'', Text ''d1, '', Text ''d2, ''])"
proof -
  have "chat (bot_co demo_bot) ''hello'' True = Inr \<lparr>search_queries = []\<rparr>"
    by (simp add: demo_bot_def PaperBot_init_def demo_client_def)
  from chat_completion_direct [OF this] show ?thesis
    by (simp add: demo_bot_def PaperBot_init_def demo_client_def demo_build_output)
qed

lemma demo_chat_q:
  "chat_completion demo_bot ''q'' =
     ([Chat_call ''q'' True,
       Similarity_search_call ''q'' 10,
       Rerank_call ''q'' [''attention'', ''encoder'', ''decoder'', ''softmax''] 3
         ''rerank-english-v2.0'',
       Similarity_search_call ''q'' 10,
       Rerank_call ''q'' [''attention'', ''encoder'', ''decoder'', ''softmax''] 3
         ''rerank-english-v2.0'',
       Chat_stream_call ''q'' ''command-r''
         (Some [[(''text'', Str ''encoder'')], [(''text'', Str ''attention'')],
                [(''text'', Str ''encoder'')], [(''text'', Str ''attention'')]])
         ''uuid-1''],
      Inr [Text ''Self'', Text ''-attention'', Text ''\<newline>\<newline>CITATIONS:'', Cite ''c1'',
           Cite ''c2'', Text ''\<newline>DOCUMENTS:'', Text ''d1, '', Text ''d2, ''])"
proof -
  have c: "chat (bot_co demo_bot) ''q'' True
             = Inr \<lparr>search_queries = [\<lparr>query_text = ''q''\<rparr>, \<lparr>query_text = ''q''\<rparr>]\<rparr>"
    by (simp add: demo_bot_def PaperBot_init_def demo_client_def)
  have v: "vectorstore demo_bot = demo_store" "conversation_id demo_bot = ''uuid-1''"
    "chat_stream (bot_co demo_bot) = (\<lambda>message model ds cid. Inr demo_events)"
    by (simp_all add: demo_bot_def PaperBot_init_def demo_client_def)
  have n: "search_queries \<lparr>search_queries = [\<lparr>query_text = ''q''\<rparr>, \<lparr>query_text = ''q''\<rparr>]\<rparr> \<noteq> []"
    by simp
  have d: "document_contents
             [[(''text'', Str ''encoder''), (''metadata'', Meta (2::nat))],
              [(''text'', Str ''attention''), (''metadata'', Meta 1)],
              [(''text'', Str ''encoder''), (''metadata'', Meta 2)],
              [(''text'', Str ''attention''), (''metadata'', Meta 1)]]
           = Inr [[(''text'', Str ''encoder'')], [(''text'', Str ''attention'')],
                  [(''text'', Str ''encoder'')], [(''text'', Str ''attention'')]]"
    by (simp add: dict_get_def)
  have q: "retrieve_queries (vectorstore demo_bot)
             (search_queries \<lparr>search_queries = [\<lparr>query_text = ''q''\<rparr>, \<lparr>query_text = ''q''\<rparr>]\<rparr>) []
           = ([Similarity_search_call ''q'' 10,
               Rerank_call ''q'' [''attention'', ''encoder'', ''decoder'', ''softmax''] 3
                 ''rerank-english-v2.0'',
               Similarity_search_call ''q'' 10,
               Rerank_call ''q'' [''attention'', ''encoder'', ''decoder'', ''softmax''] 3
                 ''rerank-english-v2.0''],
              Inr [[(''text'', Str ''encoder''), (''metadata'', Meta 2)],
                   [(''text'', Str ''attention''), (''metadata'', Meta 1)],
                   [(''text'', Str ''encoder''), (''metadata'', Meta 2)],
                   [(''text'', Str ''attention''), (''metadata'', Meta 1)]])"
    unfolding v using demo_retrieve_queries by simp
  from chat_completion_grounded [OF c n q d] show ?thesis
    by (simp add: v demo_build_output)
qed

text \<open>
  C4, as stated, fails: two search queries are planned, the index finds nothing, the
  accumulated context is empty, and \<^verbatim>\<open>chat_stream\<close> is still applied to a \<^verbatim>\<open>documents\<close>
  argument, the empty list; a service that tells the two apart answers differently.
\<close>

theorem chat_completion_empty_context_counterexample:
  "chat (bot_co echo_empty_bot) ''q'' True
     = Inr \<lparr>search_queries = [\<lparr>query_text = ''q''\<rparr>, \<lparr>query_text = ''q''\<rparr>]\<rparr>
   \<and> snd (retrieve_queries (vectorstore echo_empty_bot)
            [\<lparr>query_text = ''q''\<rparr>, \<lparr>query_text = ''q''\<rparr>] []) = Inr []
   \<and> chat_completion echo_empty_bot ''q'' =
       ([Chat_call ''q'' True,
         Similarity_search_call ''q'' 10, Rerank_call ''q'' [] 3 ''rerank-english-v2.0'',
         Similarity_search_call ''q'' 10, Rerank_call ''q'' [] 3 ''rerank-english-v2.0'',
         Chat_stream_call ''q'' ''command-r'' (Some []) ''uuid-4''],
        build_output
          (chat_stream (bot_co echo_empty_bot) ''q'' ''command-r'' (Some [])
             (conversation_id echo_empty_bot)))
   \<and> snd (chat_completion echo_empty_bot ''q'') = Inr [Text ''documents: '', Text ''id: uuid-4'']
   \<and> build_output
        (chat_stream (bot_co echo_empty_bot) ''q'' ''command-r'' None
           (conversation_id echo_empty_bot))
       = Inr [Text ''documents omitted'', Text ''id: uuid-4'']
   \<and> snd (chat_completion echo_empty_bot ''q'') \<noteq>
       build_output
         (chat_stream (bot_co echo_empty_bot) ''q'' ''command-r'' None
            (conversation_id echo_empty_bot))"
  by (simp add: echo_empty_chat_q echo_bot_fields echo_chat echo_empty_retrieve echo_stream)

theorem chat_completion_documents_passed_witness:
  "chat (bot_co echo_empty_bot) ''q'' True
     = Inr \<lparr>search_queries = [\<lparr>query_text = ''q''\<rparr>, \<lparr>query_text = ''q''\<rparr>]\<rparr>
   \<and> snd (retrieve_queries (vectorstore echo_empty_bot)
            (search_queries \<lparr>search_queries = [\<lparr>query_text = ''q''\<rparr>, \<lparr>query_text = ''q''\<rparr>]\<rparr>) [])
       = Inr []
   \<and> (\<exists>contents. document_contents ([] :: nat pydict list) = Inr contents
        \<and> length contents = length ([] :: nat pydict list)
        \<and> chat_completion echo_empty_bot ''q'' =
            (Chat_call ''q'' True
               # fst (retrieve_queries (vectorstore echo_empty_bot)
                   [\<lparr>query_text = ''q''\<rparr>, \<lparr>query_text = ''q''\<rparr>] [])
               @ [Chat_stream_call ''q'' ''command-r'' (Some contents)
                    (conversation_id echo_empty_bot)],
             build_output
               (chat_stream (bot_co echo_empty_bot) ''q'' ''command-r'' (Some contents)
                  (conversation_id echo_empty_bot))))
   \<and> snd (chat_completion echo_empty_bot ''q'') = Inr [Text ''documents: '', Text ''id: uuid-4'']"
proof -
  have c: "chat (bot_co echo_empty_bot) ''q'' True
     = Inr \<lparr>search_queries = [\<lparr>query_text = ''q''\<rparr>, \<lparr>query_text = ''q''\<rparr>]\<rparr>"
    by (simp add: echo_bot_fields echo_chat)
  have r: "snd (retrieve_queries (vectorstore echo_empty_bot)
            (search_queries \<lparr>search_queries = [\<lparr>query_text = ''q''\<rparr>, \<lparr>query_text = ''q''\<rparr>]\<rparr>) [])
       = Inr []"
    by (simp add: echo_bot_fields echo_empty_retrieve)
  have v: "snd (chat_completion echo_empty_bot ''q'') = Inr [Text ''documents: '', Text ''id: uuid-4'']"
    by (simp add: echo_empty_chat_q)
  from chat_completion_documents_passed [OF c r] c r v show ?thesis
    by simp
qed

theorem chat_completion_no_queries_witness:
  "chat (bot_co echo_bot) ''hello'' True = Inr \<lparr>search_queries = []\<rparr>
   \<and> search_queries \<lparr>search_queries = []\<rparr> = []
   \<and> chat_completion echo_bot ''hello'' =
       ([Chat_call ''hello'' True,
         Chat_stream_call ''hello'' ''command-r'' None (conversation_id echo_bot)],
        build_output
          (chat_stream (bot_co echo_bot) ''hello'' ''command-r'' None (conversation_id echo_bot)))
   \<and> snd (chat_completion echo_bot ''hello'')
       = Inr [Text ''documents omitted'', Text ''id: uuid-3'']"
proof -
  have c: "chat (bot_co echo_bot) ''hello'' True = Inr \<lparr>search_queries = []\<rparr>"
    by (simp add: echo_bot_fields echo_chat)
  have n: "search_queries \<lparr>search_queries = []\<rparr> = []"
    by simp
  have v: "snd (chat_completion echo_bot ''hello'')
       = Inr [Text ''documents omitted'', Text ''id: uuid-3'']"
    by (simp add: echo_chat_hello)
  from chat_completion_no_queries [OF c n] c n v show ?thesis
    by (intro conjI)
qed

theorem text_before_citations_witness:
  "snd (chat_completion demo_bot ''hello'') =
     Inr [Text ''Self'', Text ''-attention'', Text ''\<newline>\<newline>CITATIONS:'', Cite ''c1'',
          Cite ''c2'', Text ''\<newline>DOCUMENTS:'', Text ''d1, '', Text ''d2, '']
   \<and> (\<exists>ds events block.
         Chat_stream_call ''hello'' ''command-r'' ds (conversation_id demo_bot)
           \<in> set (fst (chat_completion demo_bot ''hello''))
         \<and> chat_stream (bot_co demo_bot) ''hello'' ''command-r'' ds (conversation_id demo_bot)
             = Inr events
         \<and> [Text ''Self'', Text ''-attention'', Text ''\<newline>\<newline>CITATIONS:'', Cite ''c1'',
            Cite ''c2'', Text ''\<newline>DOCUMENTS:'', Text ''d1, '', Text ''d2, '']
             = map Text (text_chunks events) @ block
         \<and> (block = []) = (all_citations events = [])
         \<and> (all_citations events \<noteq> [] \<longrightarrow> hd block = Text ''\<newline>\<newline>CITATIONS:''))
   \<and> text_chunks demo_events = [''Self'', ''-attention'']
   \<and> all_citations demo_events = [''c1'', ''c2'']"
proof -
  have r: "snd (chat_completion demo_bot ''hello'') =
     Inr [Text ''Self'', Text ''-attention'', Text ''\<newline>\<newline>CITATIONS:'', Cite ''c1'',
          Cite ''c2'', Text ''\<newline>DOCUMENTS:'', Text ''d1, '', Text ''d2, '']"
    by (simp add: demo_chat_hello)
  have t: "text_chunks demo_events = [''Self'', ''-attention'']"
    by (simp add: text_chunks_def demo_events_def)
  have a: "all_citations demo_events = [''c1'', ''c2'']"
    by (simp add: all_citations_def demo_events_def)
  from r text_before_citations [OF r] t a show ?thesis
    by (intro conjI)
qed

theorem citation_block_format_witness:
  "snd (chat_completion demo_bot ''q'') =
     Inr [Text ''Self'', Text ''-attention'', Text ''\<newline>\<newline>CITATIONS:'', Cite ''c1'',
          Cite ''c2'', Text ''\<newline>DOCUMENTS:'', Text ''d1, '', Text ''d2, '']
   \<and> (\<exists>ds events ids.
         Chat_stream_call ''q'' ''command-r'' ds (conversation_id demo_bot)
           \<in> set (fst (chat_completion demo_bot ''q''))
         \<and> chat_stream (bot_co demo_bot) ''q'' ''command-r'' ds (conversation_id demo_bot)
             = Inr events
         \<and> (all_citations events \<noteq> [] \<longrightarrow>
              list_all2 (\<lambda>d i. map_of d ''id'' = Some i) (last_documents events) ids)
         \<and> drop (length (text_chunks events))
             [Text ''Self'', Text ''-attention'', Text ''\<newline>\<newline>CITATIONS:'', Cite ''c1'',
              Cite ''c2'', Text ''\<newline>DOCUMENTS:'', Text ''d1, '', Text ''d2, '']
             = (if all_citations events = [] then []
                else citations_block (all_citations events) ids))
   \<and> citations_block [''c1'', ''c2''] [''d1'', ''d2''] =
       [Text ''\<newline>\<newline>CITATIONS:'', Cite ''c1'', Cite ''c2'', Text ''\<newline>DOCUMENTS:'',
        Text ''d1, '', Text ''d2, '']
   \<and> last_documents demo_events = [[(''id'', ''d1''), (''text'', ''attention'')], [(''id'', ''d2'')]]"
proof -
  have r: "snd (chat_completion demo_bot ''q'') =
     Inr [Text ''Self'', Text ''-attention'', Text ''\<newline>\<newline>CITATIONS:'', Cite ''c1'',
          Cite ''c2'', Text ''\<newline>DOCUMENTS:'', Text ''d1, '', Text ''d2, '']"
    by (simp add: demo_chat_q)
  have b: "citations_block [''c1'', ''c2''] [''d1'', ''d2''] =
       [Text ''\<newline>\<newline>CITATIONS:'', Cite ''c1'', Cite ''c2'', Text ''\<newline>DOCUMENTS:'',
        Text ''d1, '', Text ''d2, '']"
    by (simp add: citations_block_def)
  have l: "last_documents demo_events
             = [[(''id'', ''d1''), (''text'', ''attention'')], [(''id'', ''d2'')]]"
    by (simp add: last_documents_def demo_events_def)
  from r citation_block_format [OF r] b l show ?thesis
    by (intro conjI)
qed

theorem conversation_id_stable_witness:
  "echo_bot = PaperBot_init echo_client echo_store ''uuid-3''
   \<and> (\<exists>tr ds. (\<forall>m mdl ds' cid. Chat_stream_call m mdl ds' cid \<notin> set tr)
         \<and> chat_completion echo_bot ''hello'' =
             (tr @ [Chat_stream_call ''hello'' ''command-r'' ds ''uuid-3''],
              build_output (chat_stream echo_client ''hello'' ''command-r'' ds ''uuid-3'')))
   \<and> (\<exists>tr ds. (\<forall>m mdl ds' cid. Chat_stream_call m mdl ds' cid \<notin> set tr)
         \<and> chat_completion echo_bot ''q'' =
             (tr @ [Chat_stream_call ''q'' ''command-r'' ds ''uuid-3''],
              build_output (chat_stream echo_client ''q'' ''command-r'' ds ''uuid-3'')))
   \<and> snd (chat_completion echo_bot ''hello'')
       = Inr [Text ''documents omitted'', Text ''id: uuid-3'']
   \<and> snd (chat_completion echo_bot ''q'')
       = Inr [Text ''documents: text=encoder | text=attention | text=encoder | text=attention | '',
              Text ''id: uuid-3'']"
proof -
  have i: "echo_bot = PaperBot_init echo_client echo_store ''uuid-3''"
    by (simp add: echo_bot_def)
  have h: "snd (chat_completion echo_bot ''hello'')
       = Inr [Text ''documents omitted'', Text ''id: uuid-3'']"
    by (simp add: echo_chat_hello)
  have q: "snd (chat_completion echo_bot ''q'')
       = Inr [Text ''documents: text=encoder | text=attention | text=encoder | text=attention | '',
              Text ''id: uuid-3'']"
    by (simp add: echo_chat_q)
  note t = conversation_id_stable [OF i, of "[''hello'', ''q'']"]
  from t h have a: "\<exists>tr ds. (\<forall>m mdl ds' cid. Chat_stream_call m mdl ds' cid \<notin> set tr)
         \<and> chat_completion echo_bot ''hello'' =
             (tr @ [Chat_stream_call ''hello'' ''command-r'' ds ''uuid-3''],
              build_output (chat_stream echo_client ''hello'' ''command-r'' ds ''uuid-3''))"
    by simp
  from t q have b: "\<exists>tr ds. (\<forall>m mdl ds' cid. Chat_stream_call m mdl ds' cid \<notin> set tr)
         \<and> chat_completion echo_bot ''q'' =
             (tr @ [Chat_stream_call ''q'' ''command-r'' ds ''uuid-3''],
              build_output (chat_stream echo_client ''q'' ''command-r'' ds ''uuid-3''))"
    by simp
  from i a b h q show ?thesis by (intro conjI)
qed

theorem documents_concatenated_witness:
  "chat (bot_co demo_bot) ''q'' True
     = Inr \<lparr>search_queries = [\<lparr>query_text = ''q''\<rparr>, \<lparr>query_text = ''q''\<rparr>]\<rparr>
   \<and> search_queries \<lparr>search_queries = [\<lparr>query_text = ''q''\<rparr>, \<lparr>query_text = ''q''\<rparr>]\<rparr> \<noteq> []
   \<and> list_all2 (\<lambda>q r. snd (retrieve (vectorstore demo_bot) (query_text q)) = Inr r)
        (search_queries \<lparr>search_queries = [\<lparr>query_text = ''q''\<rparr>, \<lparr>query_text = ''q''\<rparr>]\<rparr>)
        [[[(''text'', Str ''encoder''), (''metadata'', Meta 2)],
          [(''text'', Str ''attention''), (''metadata'', Meta 1)]],
         [[(''text'', Str ''encoder''), (''metadata'', Meta 2)],
          [(''text'', Str ''attention''), (''metadata'', Meta 1)]]]
   \<and> snd (retrieve_queries (vectorstore demo_bot)
            (search_queries \<lparr>search_queries = [\<lparr>query_text = ''q''\<rparr>, \<lparr>query_text = ''q''\<rparr>]\<rparr>) [])
       = Inr [[(''text'', Str ''encoder''), (''metadata'', Meta 2)],
              [(''text'', Str ''attention''), (''metadata'', Meta 1)],
              [(''text'', Str ''encoder''), (''metadata'', Meta 2)],
              [(''text'', Str ''attention''), (''metadata'', Meta 1)]]
   \<and> (\<exists>contents.
         document_contents
           [[(''text'', Str ''encoder''), (''metadata'', Meta (2::nat))],
            [(''text'', Str ''attention''), (''metadata'', Meta 1)],
            [(''text'', Str ''encoder''), (''metadata'', Meta 2)],
            [(''text'', Str ''attention''), (''metadata'', Meta 1)]] = Inr contents
         \<and> last (fst (chat_completion demo_bot ''q'')) =
             Chat_stream_call ''q'' ''command-r'' (Some contents) (conversation_id demo_bot))"
proof -
  have c: "chat (bot_co demo_bot) ''q'' True
             = Inr \<lparr>search_queries = [\<lparr>query_text = ''q''\<rparr>, \<lparr>query_text = ''q''\<rparr>]\<rparr>"
    by (simp add: demo_bot_def PaperBot_init_def demo_client_def)
  have n: "search_queries \<lparr>search_queries = [\<lparr>query_text = ''q''\<rparr>, \<lparr>query_text = ''q''\<rparr>]\<rparr> \<noteq> []"
    by simp
  have l: "list_all2 (\<lambda>q r. snd (retrieve (vectorstore demo_bot) (query_text q)) = Inr r)
        (search_queries \<lparr>search_queries = [\<lparr>query_text = ''q''\<rparr>, \<lparr>query_text = ''q''\<rparr>]\<rparr>)
        [[[(''text'', Str ''encoder''), (''metadata'', Meta 2)],
          [(''text'', Str ''attention''), (''metadata'', Meta 1)]],
         [[(''text'', Str ''encoder''), (''metadata'', Meta 2)],
          [(''text'', Str ''attention''), (''metadata'', Meta 1)]]]"
    by (simp add: demo_bot_def PaperBot_init_def demo_retrieve)
  from documents_concatenated [OF c n l] c n l show ?thesis
    by simp
qed

theorem documents_text_only_witness:
  "chat (bot_co echo_bot) ''q'' True
     = Inr \<lparr>search_queries = [\<lparr>query_text = ''q''\<rparr>, \<lparr>query_text = ''q''\<rparr>]\<rparr>
   \<and> search_queries \<lparr>search_queries = [\<lparr>query_text = ''q''\<rparr>, \<lparr>query_text = ''q''\<rparr>]\<rparr> \<noteq> []
   \<and> snd (retrieve_queries (vectorstore echo_bot)
            (search_queries \<lparr>search_queries = [\<lparr>query_text = ''q''\<rparr>, \<lparr>query_text = ''q''\<rparr>]\<rparr>) [])
       = Inr [[(''text'', Str ''encoder''), (''metadata'', Meta 2)],
              [(''text'', Str ''attention''), (''metadata'', Meta 1)],
              [(''text'', Str ''encoder''), (''metadata'', Meta 2)],
              [(''text'', Str ''attention''), (''metadata'', Meta 1)]]
   \<and> (\<exists>sel. [[(''text'', Str ''encoder''), (''metadata'', Meta (2::nat))],
              [(''text'', Str ''attention''), (''metadata'', Meta 1)],
              [(''text'', Str ''encoder''), (''metadata'', Meta 2)],
              [(''text'', Str ''attention''), (''metadata'', Meta 1)]] = map passage_of sel
        \<and> list_all (\<lambda>d. map fst d = [''text'']) (map text_only sel)
        \<and> chat_completion echo_bot ''q'' =
            (Chat_call ''q'' True
               # fst (retrieve_queries (vectorstore echo_bot)
                   (search_queries
                      \<lparr>search_queries = [\<lparr>query_text = ''q''\<rparr>, \<lparr>query_text = ''q''\<rparr>]\<rparr>) [])
               @ [Chat_stream_call ''q'' ''command-r'' (Some (map text_only sel))
                    (conversation_id echo_bot)],
             build_output
               (chat_stream (bot_co echo_bot) ''q'' ''command-r'' (Some (map text_only sel))
                  (conversation_id echo_bot))))
   \<and> snd (chat_completion echo_bot ''q'')
       = Inr [Text ''documents: text=encoder | text=attention | text=encoder | text=attention | '',
              Text ''id: uuid-3'']"
proof -
  have c: "chat (bot_co echo_bot) ''q'' True
     = Inr \<lparr>search_queries = [\<lparr>query_text = ''q''\<rparr>, \<lparr>query_text = ''q''\<rparr>]\<rparr>"
    by (simp add: echo_bot_fields echo_chat)
  have n: "search_queries \<lparr>search_queries = [\<lparr>query_text = ''q''\<rparr>, \<lparr>query_text = ''q''\<rparr>]\<rparr> \<noteq> []"
    by simp
  have r: "snd (retrieve_queries (vectorstore echo_bot)
            (search_queries \<lparr>search_queries = [\<lparr>query_text = ''q''\<rparr>, \<lparr>query_text = ''q''\<rparr>]\<rparr>) [])
       = Inr [[(''text'', Str ''encoder''), (''metadata'', Meta 2)],
              [(''text'', Str ''attention''), (''metadata'', Meta 1)],
              [(''text'', Str ''encoder''), (''metadata'', Meta 2)],
              [(''text'', Str ''attention''), (''metadata'', Meta 1)]]"
    by (simp add: echo_bot_fields echo_retrieve)
  have v: "snd (chat_completion echo_bot ''q'')
       = Inr [Text ''documents: text=encoder | text=attention | text=encoder | text=attention | '',
              Text ''id: uuid-3'']"
    by (simp add: echo_chat_q)
  from c n r documents_text_only [OF c n r] v show ?thesis
    by (intro conjI)
qed

end
